theory Spec2Isabelle
  imports Complex_Main "HOL-Library.AList"
begin

section \<open>Shared vocabulary\<close>

text \<open>
  The provider is a set of translation functions between three representations of a
  resource: the Terraform attribute bag, the vendor API object and the state file.
  A Go \<^verbatim>\<open>map[K]string\<close> is modelled as an association list with unique keys
  (\<open>map_of\<close> to read, \<open>AList.update\<close> to write, \<open>AList.delete\<close> to delete); a Go
  \<^verbatim>\<open>error\<close> return is a sum whose \<open>Inl\<close> side carries one constructor per
  \<^verbatim>\<open>fmt.Errorf\<close> of the source.
\<close>

type_synonym config_map = "(string \<times> string) list"

text \<open>
  The keys of the vendor API's free-form check configuration are constants of the
  vendor client library (package \<^verbatim>\<open>config\<close>), which is not part of this repository.
  They are a parameter of every function that uses one.
\<close>

record config_consts =
  config_AuthMethod :: string
  config_AuthPassword :: string
  config_AuthUser :: string
  config_Body :: string
  config_CAChain :: string
  config_CertFile :: string
  config_Ciphers :: string
  config_Code :: string
  config_Extract :: string
  config_Granularity :: string
  config_HTTPVersion :: string
  config_HeaderPrefix :: string
  config_KeyFile :: string
  config_Method :: string
  config_Payload :: string
  config_Port :: string
  config_ReadLimit :: string
  config_Redirects :: string
  config_ReverseSecretKey :: string
  config_SubmissionURL :: string
  config_URL :: string

section \<open>The check bundle (check.go)\<close>

record CheckBundleMetric =
  metric_Name :: string
  metric_Status :: string
  metric_Type :: string

text \<open>
  \<^verbatim>\<open>api.CheckBundle\<close>, the fields the provider reads or writes. \<open>Period\<close> is a Go
  \<^verbatim>\<open>uint\<close> (seconds). \<open>Timeout\<close> is a Go \<^verbatim>\<open>float32\<close>; every finite float32 is a
  rational number, and the model keeps the number it denotes.
\<close>

record CheckBundle =
  CID :: string
  Brokers :: "string list"
  Config :: config_map
  DisplayName :: string
  MetricFilters :: "string list list"
  MetricLimit :: int
  Metrics :: "CheckBundleMetric list"
  Notes :: "string option"
  Period :: nat
  Status :: string
  Tags :: "string list"
  Target :: string
  Timeout :: rat
  Type :: string

datatype check_error =
    MetricsAndMetricFiltersBoth
  | MetricsOrMetricFiltersRequired
  | TimeoutExceedsPeriod rat nat
  | CloudWatchPeriod
  | ConsulCheckModeRequired

text \<open>
  \<^verbatim>\<open>float32(c.Period)\<close>: a float32 has a 24-bit significand, so a \<^verbatim>\<open>uint\<close> below
  \<open>2^24\<close> converts exactly; a larger one is rounded to the nearest multiple of
  \<open>2^e\<close> (\<open>e\<close> the number of bits beyond 24), ties to the even significand.
\<close>

fun bitlen :: "nat \<Rightarrow> nat" where
  "bitlen n = (if n = 0 then 0 else Suc (bitlen (n div 2)))"

declare bitlen.simps [simp del]

definition float32_of_uint :: "nat \<Rightarrow> nat" where
  "float32_of_uint n =
     (if n < 2 ^ 24 then n
      else let e = bitlen n - 24;
               q = n div 2 ^ e;
               r = n mod 2 ^ e;
               half = 2 ^ (e - 1)
           in (if half < r \<or> (r = half \<and> odd q) then q + 1 else q) * 2 ^ e)"

definition apiCheckTypeCloudWatchAttr :: string where
  "apiCheckTypeCloudWatchAttr = ''cloudwatch''"

definition apiCheckTypeConsulAttr :: string where
  "apiCheckTypeConsulAttr = ''consul''"

definition apiCheckTypeHTTPAttr :: string where
  "apiCheckTypeHTTPAttr = ''http''"

text \<open>\<^verbatim>\<open>func (c *circonusCheck) Validate() error\<close>, check by check in the source's order.\<close>

definition Validate :: "config_consts \<Rightarrow> CheckBundle \<Rightarrow> check_error + unit" where
  "Validate K c =
     (if length (Metrics c) > 0 \<and> length (MetricFilters c) > 0 then
        Inl MetricsAndMetricFiltersBoth
      else if length (Metrics c) = 0 \<and> length (MetricFilters c) = 0 then
        Inl MetricsOrMetricFiltersRequired
      else if Timeout c > of_nat (float32_of_uint (Period c)) then
        Inl (TimeoutExceedsPeriod (Timeout c) (Period c))
      else if Type c = apiCheckTypeCloudWatchAttr then
        (if \<not> (Period c = 60 \<or> Period c = 300) then Inl CloudWatchPeriod else Inr ())
      else if Type c = apiCheckTypeConsulAttr then
        (case map_of (Config c) (config_URL K) of
           None \<Rightarrow> Inl ConsulCheckModeRequired
         | Some v \<Rightarrow> if v = '''' then Inl ConsulCheckModeRequired else Inr ())
      else Inr ())"

section \<open>Metrics and metric filters are mutually exclusive\<close>

lemma float32_of_uint_exact: "n < 2 ^ 24 \<Longrightarrow> float32_of_uint n = n"
  by (simp add: float32_of_uint_def)

text \<open>
  C2. \<open>Validate\<close> returns the "both have entries" error when the metric list and the
  metric-filter list are both non-empty, the "you must supply" error when both are
  empty, and neither of these two errors when exactly one of the lists is non-empty.
\<close>

theorem C2_metrics_xor_metric_filters:
  "(Metrics c \<noteq> [] \<and> MetricFilters c \<noteq> [] \<longrightarrow>
      Validate K c = Inl MetricsAndMetricFiltersBoth)
   \<and> (Metrics c = [] \<and> MetricFilters c = [] \<longrightarrow>
      Validate K c = Inl MetricsOrMetricFiltersRequired)
   \<and> ((Metrics c = []) \<noteq> (MetricFilters c = []) \<longrightarrow>
      Validate K c \<noteq> Inl MetricsAndMetricFiltersBoth
      \<and> Validate K c \<noteq> Inl MetricsOrMetricFiltersRequired)"
  by (auto simp: Validate_def split: option.splits)

definition apiConfigKeys :: config_consts where
  "apiConfigKeys = \<lparr>
     config_AuthMethod = ''auth_method'',
     config_AuthPassword = ''auth_password'',
     config_AuthUser = ''auth_user'',
     config_Body = ''body'',
     config_CAChain = ''ca_chain'',
     config_CertFile = ''certificate_file'',
     config_Ciphers = ''ciphers'',
     config_Code = ''code'',
     config_Extract = ''extract'',
     config_Granularity = ''granularity'',
     config_HTTPVersion = ''http_version'',
     config_HeaderPrefix = ''header_'',
     config_KeyFile = ''key_file'',
     config_Method = ''method'',
     config_Payload = ''payload'',
     config_Port = ''port'',
     config_ReadLimit = ''read_limit'',
     config_Redirects = ''redirects'',
     config_ReverseSecretKey = ''reverse:secret_key'',
     config_SubmissionURL = ''submission_url'',
     config_URL = ''url'' \<rparr>"

definition exampleBundle :: CheckBundle where
  "exampleBundle = \<lparr>
     CID = [], Brokers = [''/broker/1''], Config = [(''url'', ''http://example.com/'')],
     DisplayName = ''example'', MetricFilters = [[''allow'', ''.*'', ''tags'', [], []]],
     MetricLimit = 0, Metrics = [], Notes = None, Period = 60, Status = ''active'',
     Tags = [], Target = ''example.com'', Timeout = 30, Type = ''http'' \<rparr>"

theorem C2_metrics_xor_metric_filters_witness:
  "Validate apiConfigKeys (exampleBundle\<lparr>Metrics := [\<lparr>metric_Name = ''m'', metric_Status = ''active'', metric_Type = ''numeric''\<rparr>]\<rparr>)
     = Inl MetricsAndMetricFiltersBoth
   \<and> Validate apiConfigKeys (exampleBundle\<lparr>MetricFilters := []\<rparr>) = Inl MetricsOrMetricFiltersRequired
   \<and> Validate apiConfigKeys exampleBundle \<noteq> Inl MetricsAndMetricFiltersBoth
   \<and> Validate apiConfigKeys exampleBundle \<noteq> Inl MetricsOrMetricFiltersRequired"
  using C2_metrics_xor_metric_filters [of "exampleBundle\<lparr>Metrics := [\<lparr>metric_Name = ''m'', metric_Status = ''active'', metric_Type = ''numeric''\<rparr>]\<rparr>" apiConfigKeys]
    C2_metrics_xor_metric_filters [of "exampleBundle\<lparr>MetricFilters := []\<rparr>" apiConfigKeys]
    C2_metrics_xor_metric_filters [of exampleBundle apiConfigKeys]
  by (simp add: exampleBundle_def)

end
